theory Spec2Isabelle
  imports Main "HOL-Library.Word"
begin

section \<open>JavaScript values reaching the Chapter route\<close>

text \<open>
  The values a route parameter can hold. A Number is one of: an integer from \<open>- 2 ^ 53\<close>
  to \<open>2 ^ 53 - 1\<close> (\<open>JNum\<close>, a signed 54-bit word; all of these are exact Numbers and
  ToString writes them as decimal numerals), \<open>NaN\<close>, \<open>-0\<close>, or an infinity. The other
  Numbers (fractions, larger magnitudes) are written by the floating-point conversion,
  which is not modelled: they are not values of this type. A BigInt is any integer. An
  array is the list of its elements. An object is an ordinary object with the prototype
  \<open>Object.prototype\<close> and own data properties with string keys: its property table,
  where the first entry of a key is the property's value. No value of the type is
  callable: functions, and so objects with methods of their own, are not values of this
  type either. (A numeral at \<open>JNum\<close> is read in the word type, modulo \<open>2 ^ 54\<close>.)
\<close>

datatype jsval =
    JUndefined
  | JNull
  | JBool bool
  | JNum "54 word"
  | JNaN
  | JNegZero
  | JInfinity
  | JNegInfinity
  | JBigInt int
  | JStr string
  | JSymbol string
  | JArr "jsval list"
  | JObj "(string \<times> jsval) list"

datatype js_error = TypeError

text \<open>
  ToBoolean: the falsy values are \<open>undefined\<close>, \<open>null\<close>, \<open>false\<close>, \<open>0\<close>, \<open>-0\<close>, \<open>NaN\<close>,
  \<open>0n\<close> and \<open>""\<close>.
\<close>

fun truthy :: "jsval \<Rightarrow> bool" where
  "truthy JUndefined = False"
| "truthy JNull = False"
| "truthy (JBool b) = b"
| "truthy (JNum n) = (n \<noteq> 0)"
| "truthy JNaN = False"
| "truthy JNegZero = False"
| "truthy JInfinity = True"
| "truthy JNegInfinity = True"
| "truthy (JBigInt n) = (n \<noteq> 0)"
| "truthy (JStr s) = (s \<noteq> [])"
| "truthy (JSymbol d) = True"
| "truthy (JArr xs) = True"
| "truthy (JObj kvs) = True"

definition digit_char :: "nat \<Rightarrow> char" where
  "digit_char d = ''0123456789'' ! (d mod 10)"

fun show_nat :: "nat \<Rightarrow> string" where
  "show_nat n = (if n < 10 then [digit_char n] else show_nat (n div 10) @ [digit_char (n mod 10)])"

declare show_nat.simps [simp del]

definition show_int :: "int \<Rightarrow> string" where
  "show_int i = (if i < 0 then CHR ''-'' # show_nat (nat (- i)) else show_nat (nat i))"

fun nullish :: "jsval \<Rightarrow> bool" where
  "nullish JUndefined = True"
| "nullish JNull = True"
| "nullish v = False"

text \<open>\<open>Array.prototype.join\<close> with the separator \<open>","\<close>, on the elements' strings.\<close>

fun join :: "string list \<Rightarrow> string" where
  "join [] = []"
| "join [s] = s"
| "join (s # t # ss) = s @ '','' @ join (t # ss)"

text \<open>The strings of all elements, or the first error met from the left.\<close>

fun collect :: "(js_error + string) list \<Rightarrow> js_error + string list" where
  "collect [] = Inr []"
| "collect (Inl e # rs) = Inl e"
| "collect (Inr s # rs) = (case collect rs of Inl e \<Rightarrow> Inl e | Inr ss \<Rightarrow> Inr (s # ss))"

text \<open>
  ToString, as a template literal applies it to each interpolated value. A Symbol cannot
  be converted (TypeError). An array is joined: an element that is \<open>undefined\<close> or \<open>null\<close>
  gives the empty string, any other element its own ToString. An object is converted by
  its \<open>toString\<close> method: \<open>Object.prototype.toString\<close>, which gives \<open>[object Object]\<close>,
  unless the object has an own property \<open>toString\<close>; that property is not callable, nor
  does \<open>valueOf\<close> give a primitive, so the conversion throws a TypeError.
\<close>

fun ToString :: "jsval \<Rightarrow> js_error + string" where
  "ToString JUndefined = Inr ''undefined''"
| "ToString JNull = Inr ''null''"
| "ToString (JBool b) = Inr (if b then ''true'' else ''false'')"
| "ToString (JNum n) = Inr (show_int (sint n))"
| "ToString JNaN = Inr ''NaN''"
| "ToString JNegZero = Inr ''0''"
| "ToString JInfinity = Inr ''Infinity''"
| "ToString JNegInfinity = Inr ''-Infinity''"
| "ToString (JBigInt n) = Inr (show_int n)"
| "ToString (JStr s) = Inr s"
| "ToString (JSymbol d) = Inl TypeError"
| "ToString (JArr xs) =
     (case collect (map (\<lambda>x. if nullish x then Inr [] else ToString x) xs) of
        Inl e \<Rightarrow> Inl e
      | Inr ss \<Rightarrow> Inr (join ss))"
| "ToString (JObj kvs) =
     (case map_of kvs ''toString'' of
        None \<Rightarrow> Inr ''[object Object]''
      | Some m \<Rightarrow> Inl TypeError)"

text \<open>
  The five property names the destructuring pattern of the Chapter options reads. None
  of them is a property of \<open>Object.prototype\<close>, of \<open>Array.prototype\<close> or of the prototype
  of a primitive, so a value has such a property only as an own property of an object.
\<close>

datatype pattern_key = K_route | K_params | K_chapter | K_number | K_title

fun key_name :: "pattern_key \<Rightarrow> string" where
  "key_name K_route = ''route''"
| "key_name K_params = ''params''"
| "key_name K_chapter = ''chapter''"
| "key_name K_number = ''number''"
| "key_name K_title = ''title''"

text \<open>
  Reading the property \<open>k\<close> of \<open>v\<close> in a destructuring pattern: \<open>undefined\<close> and \<open>null\<close>
  cannot be destructured (TypeError); an object yields the property's value, or
  \<open>undefined\<close> when it has no such property; any other value has no such property.
\<close>

fun readProp :: "jsval \<Rightarrow> pattern_key \<Rightarrow> jsval" where
  "readProp (JObj kvs) k = (case map_of kvs (key_name k) of None \<Rightarrow> JUndefined | Some v \<Rightarrow> v)"
| "readProp v k = JUndefined"

definition getProp :: "jsval \<Rightarrow> pattern_key \<Rightarrow> js_error + jsval" where
  "getProp v k = (if nullish v then Inl TypeError else Inr (readProp v k))"

section \<open>The Chapter screen's options\<close>

record gesture_distance =
  horizontal :: int

record nav_options =
  title :: jsval
  gestureResponseDistance :: "gesture_distance option"

text \<open>
  The \<open>options\<close> function of the Chapter screen (App.js, lines 110 to 119). Its argument
  is destructured as \<open>{route: {params: {chapter: {number, title}}}}\<close>, level by level.
  The title is computed first: when \<open>number\<close> is truthy, the template literal converts
  \<open>number\<close> and then \<open>title\<close> to strings, and either conversion can throw.
\<close>

definition Chapter_options :: "jsval \<Rightarrow> js_error + nav_options" where
  "Chapter_options props =
     (case getProp props K_route of Inl e \<Rightarrow> Inl e | Inr route \<Rightarrow>
      case getProp route K_params of Inl e \<Rightarrow> Inl e | Inr params \<Rightarrow>
      case getProp params K_chapter of Inl e \<Rightarrow> Inl e | Inr chapter \<Rightarrow>
      case getProp chapter K_number of Inl e \<Rightarrow> Inl e | Inr number \<Rightarrow>
      case getProp chapter K_title of Inl e \<Rightarrow> Inl e | Inr ttl \<Rightarrow>
        if truthy number
        then (case ToString number of Inl e \<Rightarrow> Inl e | Inr n \<Rightarrow>
              case ToString ttl of Inl e \<Rightarrow> Inl e | Inr t \<Rightarrow>
                Inr \<lparr> title = JStr (''Chapter '' @ n @ '': '' @ t),
                      gestureResponseDistance = Some \<lparr> horizontal = 500 \<rparr> \<rparr>)
        else Inr \<lparr> title = ttl,
                   gestureResponseDistance = Some \<lparr> horizontal = 500 \<rparr> \<rparr>)"

text \<open>The argument the navigator passes to \<open>options\<close> for a route with the given params.\<close>

definition activation :: "jsval \<Rightarrow> jsval" where
  "activation params = JObj [(''route'', JObj [(''name'', JStr ''Chapter''), (''params'', params)])]"

section \<open>Module-level objects\<close>

text \<open>
  Objects are held in a store and named by their address, so that two references to one
  object are two copies of one address. A cache's content is its table of normalized
  records (identifier, serialized record). \<open>new InMemoryCache()\<close> allocates an empty
  cache at the next free address.
\<close>

type_synonym addr = nat
type_synonym cache_data = "(string \<times> string) list"
type_synonym store = "cache_data list"

definition new_InMemoryCache :: "store \<Rightarrow> addr \<times> store" where
  "new_InMemoryCache h = (length h, h @ [[]])"

definition readCache :: "store \<Rightarrow> addr \<Rightarrow> cache_data option" where
  "readCache h a = (if a < length h then Some (h ! a) else None)"

definition restoreCache :: "store \<Rightarrow> addr \<Rightarrow> cache_data \<Rightarrow> store" where
  "restoreCache h a d = (if a < length h then h[a := d] else h)"

text \<open>\<open>const cache = new InMemoryCache()\<close>, evaluated once, in the empty store.\<close>

definition cache :: addr where
  "cache = fst (new_InMemoryCache [])"

record ApolloClient =
  uri :: string
  client_cache :: addr
  watchQuery_fetchPolicy :: string

definition client :: ApolloClient where
  "client = \<lparr> uri = ''https://api.graphql.guide/graphql'',
              client_cache = cache,
              watchQuery_fetchPolicy = ''cache-and-network'' \<rparr>"

datatype storage = AsyncStorage

record persist_options =
  persist_cache :: addr
  persist_storage :: storage

section \<open>The App component\<close>

datatype promise_state = Unsettled | Fulfilled | Rejected

text \<open>
  The state of the running process. The object store and the count of the calls of
  \<open>persistCache\<close> belong to the process. The slot of the \<open>useState\<close> hook (empty until
  the first render) and the flag of the effect registered with an empty dependency array
  belong to the mounted instance of the component: React discards them when the
  component is unmounted. \<open>promise\<close> is the promise returned to the mounted instance,
  with the options of the call; \<open>unmounted_promises\<close> are the promises that were
  returned to instances since unmounted.
\<close>

record process =
  store :: store
  loadingCache_hook :: "bool option"
  effect_mounted :: bool
  persistCache_calls :: nat
  promise :: "(persist_options \<times> promise_state) option"
  unmounted_promises :: "(persist_options \<times> promise_state) list"

definition module_load :: process where
  "module_load = \<lparr> store = snd (new_InMemoryCache []),
                   loadingCache_hook = None,
                   effect_mounted = False,
                   persistCache_calls = 0,
                   promise = None,
                   unmounted_promises = [] \<rparr>"

text \<open>\<open>useState(initial)\<close>: the initial value on the first render, the stored one afterwards.\<close>

definition useState :: "bool \<Rightarrow> process \<Rightarrow> bool \<times> process" where
  "useState initial p =
     (case loadingCache_hook p of
        None \<Rightarrow> (initial, p\<lparr>loadingCache_hook := Some initial\<rparr>)
      | Some v \<Rightarrow> (v, p))"

definition setLoadingCache :: "bool \<Rightarrow> process \<Rightarrow> process" where
  "setLoadingCache v p = p\<lparr>loadingCache_hook := Some v\<rparr>"

text \<open>
  \<open>persistCache(options)\<close> starts the rehydration and returns a promise; the promise is
  settled later, by the storage layer.
\<close>

definition persistCache :: "persist_options \<Rightarrow> process \<Rightarrow> process" where
  "persistCache options p =
     p\<lparr>persistCache_calls := Suc (persistCache_calls p),
       promise := Some (options, Unsettled)\<rparr>"

text \<open>The effect of lines 87 to 92, and the callback it passes to \<open>then\<close>.\<close>

definition rehydrate :: "process \<Rightarrow> process" where
  "rehydrate p = persistCache \<lparr> persist_cache = cache, persist_storage = AsyncStorage \<rparr> p"

definition onFulfilled :: "process \<Rightarrow> process" where
  "onFulfilled p = setLoadingCache False p"

text \<open>
  \<open>useEffect(effect, [])\<close>: the effect runs after the first render of an instance and not
  again while that instance is mounted.
\<close>

definition useEffect :: "(process \<Rightarrow> process) \<Rightarrow> process \<Rightarrow> process" where
  "useEffect effect p = (if effect_mounted p then p else effect (p\<lparr>effect_mounted := True\<rparr>))"

datatype component = HomeScreen | ChapterScreen

datatype screen_options =
    Static nav_options
  | Dynamic "jsval \<Rightarrow> js_error + nav_options"

datatype screen = Screen string component screen_options

text \<open>
  The element tree. \<open>screenOptions\<close> is imported from the styles module, which is not
  part of the source at hand: it is the parameter \<open>'so\<close>.
\<close>

datatype 'so element =
    AppLoading
  | ApolloProvider ApolloClient "'so element"
  | NavigationContainer "'so element list"
  | Stack_Navigator string 'so "screen list"
  | StatusBar string

text \<open>The Home title starts with the open-book emoji U+1F4D6, here in UTF-8.\<close>

definition Home_title :: string where
  "Home_title = [CHR 0xF0, CHR 0x9F, CHR 0x93, CHR 0x96] @ '' The GraphQL Guide''"

definition App_hooks :: "process \<Rightarrow> bool \<times> process" where
  "App_hooks p =
     (case useState True p of (loadingCache, p1) \<Rightarrow> (loadingCache, useEffect rehydrate p1))"

definition App_return :: "'so \<Rightarrow> bool \<Rightarrow> 'so element" where
  "App_return screenOptions loadingCache =
     (if loadingCache then AppLoading
      else ApolloProvider client
             (NavigationContainer
                [Stack_Navigator ''Home'' screenOptions
                   [Screen ''Home'' HomeScreen
                      (Static \<lparr> title = JStr Home_title, gestureResponseDistance = None \<rparr>),
                    Screen ''Chapter'' ChapterScreen (Dynamic Chapter_options)],
                 StatusBar ''light'']))"

definition App :: "'so \<Rightarrow> process \<Rightarrow> 'so element \<times> process" where
  "App screenOptions p =
     (case App_hooks p of (loadingCache, p') \<Rightarrow> (App_return screenOptions loadingCache, p'))"

section \<open>Runs of the process\<close>

text \<open>
  What can happen in the process. React renders the component; the first render of an
  instance mounts it. The storage layer settles the promise of the mounted instance's
  rehydration, fulfilling it (the content read from storage has been restored into the
  cache that was passed) or rejecting it. React unmounts the component; a later render
  mounts a new instance. The storage layer settles a promise that was returned to an
  instance since unmounted. The source sets no timer and cancels nothing, so there is no
  other event. A promise settles once. The reaction registered with \<open>then(onFulfilled)\<close>
  has no rejection handler: it runs on fulfilment only.
\<close>

datatype settlement = Fulfil cache_data | Reject

datatype event = Render | Settle settlement | Unmount | SettleUnmounted nat settlement

fun settle :: "settlement \<Rightarrow> process \<Rightarrow> process" where
  "settle (Fulfil d) p =
     (case promise p of
        Some (options, Unsettled) \<Rightarrow>
          onFulfilled (p\<lparr>store := restoreCache (store p) (persist_cache options) d,
                         promise := Some (options, Fulfilled)\<rparr>)
      | _ \<Rightarrow> p)"
| "settle Reject p =
     (case promise p of
        Some (options, Unsettled) \<Rightarrow> p\<lparr>promise := Some (options, Rejected)\<rparr>
      | _ \<Rightarrow> p)"

text \<open>
  Unmounting discards the state of the instance. Its promise lives on; the setter its
  reaction would call belongs to the unmounted instance.
\<close>

definition unmount :: "process \<Rightarrow> process" where
  "unmount p =
     p\<lparr>loadingCache_hook := None,
       effect_mounted := False,
       promise := None,
       unmounted_promises :=
         unmounted_promises p @ (case promise p of None \<Rightarrow> [] | Some pr \<Rightarrow> [pr])\<rparr>"

text \<open>
  Settling the \<open>k\<close>-th promise of an unmounted instance. A fulfilment has restored the
  content into the cache as before; the reaction calls the setter of an unmounted
  instance, which React ignores.
\<close>

fun settle_unmounted :: "nat \<Rightarrow> settlement \<Rightarrow> process \<Rightarrow> process" where
  "settle_unmounted k (Fulfil d) p =
     (if k < length (unmounted_promises p)
      then (case unmounted_promises p ! k of
              (options, Unsettled) \<Rightarrow>
                p\<lparr>store := restoreCache (store p) (persist_cache options) d,
                  unmounted_promises := (unmounted_promises p)[k := (options, Fulfilled)]\<rparr>
            | _ \<Rightarrow> p)
      else p)"
| "settle_unmounted k Reject p =
     (if k < length (unmounted_promises p)
      then (case unmounted_promises p ! k of
              (options, Unsettled) \<Rightarrow>
                p\<lparr>unmounted_promises := (unmounted_promises p)[k := (options, Rejected)]\<rparr>
            | _ \<Rightarrow> p)
      else p)"

fun step :: "event \<Rightarrow> process \<Rightarrow> process" where
  "step Render p = snd (App_hooks p)"
| "step (Settle s) p = settle s p"
| "step Unmount p = unmount p"
| "step (SettleUnmounted k s) p = settle_unmounted k s p"

fun run :: "event list \<Rightarrow> process \<Rightarrow> process" where
  "run [] p = p"
| "run (e # es) p = run es (step e p)"

datatype readiness = Pending | Ready

text \<open>CacheReadiness is the value \<open>loadingCache\<close> has in a render: Pending while it is true.\<close>

definition CacheReadiness :: "process \<Rightarrow> readiness" where
  "CacheReadiness p = (if fst (useState True p) then Pending else Ready)"

text \<open>The number of steps of a run at which CacheReadiness changes.\<close>

fun transitions :: "process \<Rightarrow> event list \<Rightarrow> nat" where
  "transitions p [] = 0"
| "transitions p (e # es) =
     (if CacheReadiness (step e p) = CacheReadiness p then 0 else 1) + transitions (step e p) es"


fun fulfils :: "event \<Rightarrow> bool" where
  "fulfils (Settle (Fulfil d)) = True"
| "fulfils e = False"

fun never_fulfilled :: "event list \<Rightarrow> bool" where
  "never_fulfilled [] = True"
| "never_fulfilled (e # es) = (\<not> fulfils e \<and> never_fulfilled es)"

fun renders_navigation :: "'so element \<Rightarrow> bool" where
  "renders_navigation AppLoading = False"
| "renders_navigation (ApolloProvider c e) = renders_navigation e"
| "renders_navigation (NavigationContainer es) = True"
| "renders_navigation (Stack_Navigator r so ss) = True"
| "renders_navigation (StatusBar s) = False"

fun initialRouteName :: "'so element \<Rightarrow> string option" where
  "initialRouteName AppLoading = None"
| "initialRouteName (ApolloProvider c e) = initialRouteName e"
| "initialRouteName (NavigationContainer es) =
     (case filter (\<lambda>r. r \<noteq> None) (map initialRouteName es) of [] \<Rightarrow> None | r # rs \<Rightarrow> r)"
| "initialRouteName (Stack_Navigator r so ss) = Some r"
| "initialRouteName (StatusBar s) = None"

text \<open>What a query of the client finds in the cache the client was configured with.\<close>

definition client_reads :: "ApolloClient \<Rightarrow> process \<Rightarrow> cache_data option" where
  "client_reads c p = readCache (store p) (client_cache c)"

text \<open>
  An invariant of the runs: the store holds the one cache allocated at module load, and
  every promise belongs to a call that was given that cache.
\<close>

definition alias_inv :: "process \<Rightarrow> bool" where
  "alias_inv p = (length (store p) = 1 \<and>
     (case promise p of None \<Rightarrow> True | Some (options, st) \<Rightarrow> persist_cache options = cache) \<and>
     list_all (\<lambda>(options, st). persist_cache options = cache) (unmounted_promises p))"

section \<open>Auxiliary lemmas\<close>

lemmas show_simps = show_int_def show_nat.simps digit_char_def

lemmas hook_defs = App_hooks_def useState_def useEffect_def rehydrate_def persistCache_def
  onFulfilled_def setLoadingCache_def

lemmas run_defs = module_load_def new_InMemoryCache_def cache_def client_def restoreCache_def
  readCache_def client_reads_def unmount_def

lemma CacheReadiness_hook:
  "CacheReadiness p = (if loadingCache_hook p = Some False then Ready else Pending)"
  by (auto simp: CacheReadiness_def useState_def split: option.splits)

lemma hook_Render: "loadingCache_hook (snd (App_hooks p)) =
    (case loadingCache_hook p of None \<Rightarrow> Some True | Some v \<Rightarrow> Some v)"
  by (simp add: hook_defs split: option.splits)

lemma hook_Reject: "loadingCache_hook (settle Reject p) = loadingCache_hook p"
  by (simp split: option.splits promise_state.splits prod.splits)

lemma hook_Fulfil: "loadingCache_hook (settle (Fulfil d) p) =
    (case promise p of Some (options, Unsettled) \<Rightarrow> Some False | _ \<Rightarrow> loadingCache_hook p)"
  by (simp add: hook_defs split: option.splits promise_state.splits prod.splits)

lemma hook_unmount: "loadingCache_hook (unmount p) = None"
  by (simp add: unmount_def)

lemma hook_settle_unmounted:
  "loadingCache_hook (settle_unmounted k s p) = loadingCache_hook p"
  by (cases s) (simp_all split: prod.splits promise_state.splits)

lemma step_Ready:
  "e \<noteq> Unmount \<Longrightarrow> CacheReadiness p = Ready \<Longrightarrow> CacheReadiness (step e p) = Ready"
proof (cases e)
  case Render
  then show "CacheReadiness p = Ready \<Longrightarrow> ?thesis"
    by (simp add: CacheReadiness_hook hook_Render split: if_splits)
next
  case (Settle s)
  then show "CacheReadiness p = Ready \<Longrightarrow> ?thesis"
    by (cases s)
      (simp_all add: CacheReadiness_hook hook_Reject hook_Fulfil del: settle.simps
        split: if_splits option.splits promise_state.splits prod.splits)
next
  case Unmount
  then show "e \<noteq> Unmount \<Longrightarrow> ?thesis" by simp
next
  case (SettleUnmounted k s)
  then show "CacheReadiness p = Ready \<Longrightarrow> ?thesis"
    by (simp add: CacheReadiness_hook hook_settle_unmounted del: settle_unmounted.simps)
qed

lemma step_Pending:
  "\<not> fulfils e \<Longrightarrow> CacheReadiness p = Pending \<Longrightarrow> CacheReadiness (step e p) = Pending"
proof (cases e)
  case Render
  then show "CacheReadiness p = Pending \<Longrightarrow> ?thesis"
    by (auto simp: CacheReadiness_hook hook_Render split: option.splits if_splits)
next
  case (Settle s)
  assume "\<not> fulfils e"
  with Settle have "s = Reject" by (cases s) simp_all
  with Settle show "CacheReadiness p = Pending \<Longrightarrow> ?thesis"
    by (simp add: CacheReadiness_hook hook_Reject del: settle.simps)
next
  case Unmount
  then show ?thesis by (simp add: CacheReadiness_hook hook_unmount)
next
  case (SettleUnmounted k s)
  then show "CacheReadiness p = Pending \<Longrightarrow> ?thesis"
    by (simp add: CacheReadiness_hook hook_settle_unmounted del: settle_unmounted.simps)
qed

lemma run_never_fulfilled:
  "never_fulfilled es \<Longrightarrow> CacheReadiness p = Pending \<Longrightarrow> CacheReadiness (run es p) = Pending"
  by (induction es arbitrary: p) (simp_all add: step_Pending)

lemma transitions_Ready:
  "Unmount \<notin> set es \<Longrightarrow> CacheReadiness p = Ready \<Longrightarrow> transitions p es = 0"
  by (induction es arbitrary: p) (auto simp: step_Ready)

lemma transitions_le: "Unmount \<notin> set es \<Longrightarrow> transitions p es \<le> 1"
proof (induction es arbitrary: p)
  case Nil
  show ?case by simp
next
  case (Cons e es)
  from Cons.prems have e: "e \<noteq> Unmount" and es: "Unmount \<notin> set es" by auto
  show ?case
  proof (cases "CacheReadiness (step e p) = CacheReadiness p")
    case True
    with Cons.IH [OF es, of "step e p"] show ?thesis by simp
  next
    case False
    then have "CacheReadiness (step e p) = Ready"
      using step_Ready [OF e, of p]
      by (cases "CacheReadiness p"; cases "CacheReadiness (step e p)") simp_all
    then show ?thesis using False es by (simp add: transitions_Ready)
  qed
qed

lemma onFulfilled_Ready: "CacheReadiness p = Ready \<Longrightarrow> onFulfilled p = p"
  by (simp add: CacheReadiness_hook onFulfilled_def setLoadingCache_def split: if_splits)

lemma settle_settled: "promise p = Some (options, st) \<Longrightarrow> st \<noteq> Unsettled \<Longrightarrow> settle s p = p"
  by (cases s; cases st) simp_all

lemma App_Pending: "CacheReadiness p = Pending \<Longrightarrow> fst (App so p) = AppLoading"
  by (auto simp: App_def App_hooks_def App_return_def CacheReadiness_def split: prod.splits if_splits)

lemma module_load_Pending: "CacheReadiness module_load = Pending"
  by (simp add: CacheReadiness_hook module_load_def)






lemma alias_inv_step: "alias_inv p \<Longrightarrow> alias_inv (step e p)"
proof (cases e)
  case Render
  then show "alias_inv p \<Longrightarrow> ?thesis"
    by (auto simp: alias_inv_def hook_defs split: option.splits)
next
  case (Settle s)
  then show "alias_inv p \<Longrightarrow> ?thesis"
    by (cases s) (auto simp: alias_inv_def hook_defs restoreCache_def split: option.splits promise_state.splits prod.splits)
next
  case Unmount
  then show "alias_inv p \<Longrightarrow> ?thesis"
    by (auto simp: alias_inv_def unmount_def split: option.splits)
next
  case (SettleUnmounted k s)
  assume a: "alias_inv p"
  have "alias_inv (settle_unmounted k s p)"
  proof (cases "k < length (unmounted_promises p)")
    case False
    with a show ?thesis by (cases s) simp_all
  next
    case True
    obtain options st where q: "unmounted_promises p ! k = (options, st)"
      by (cases "unmounted_promises p ! k")
    from a True q have c: "persist_cache options = cache"
      by (auto simp: alias_inv_def list_all_length)
    have u: "list_all (\<lambda>(options, st). persist_cache options = cache)
        ((unmounted_promises p)[k := (options, st')])" for st'
    proof -
      have "set ((unmounted_promises p)[k := (options, st')])
          \<subseteq> insert (options, st') (set (unmounted_promises p))"
        by (rule set_update_subset_insert)
      with a c show ?thesis by (auto simp: alias_inv_def list_all_iff)
    qed
    from a True q u show ?thesis
      by (cases s; cases st) (simp_all add: alias_inv_def restoreCache_def)
  qed
  with SettleUnmounted show ?thesis by simp
qed

lemma alias_inv_run: "alias_inv p \<Longrightarrow> alias_inv (run es p)"
  by (induction es arbitrary: p) (simp_all add: alias_inv_step)

lemma alias_inv_module_load: "alias_inv module_load"
  by (simp add: alias_inv_def module_load_def new_InMemoryCache_def)

lemma client_cache_eq: "client_cache client = cache"
  by (simp add: client_def)

lemma cache_0: "cache = 0"
  by (simp add: cache_def new_InMemoryCache_def)

lemma reads_after_fulfil:
  "alias_inv p \<Longrightarrow> promise p = Some (options, Unsettled) \<Longrightarrow>
   client_reads client (settle (Fulfil d) p) = Some d"
  by (simp add: alias_inv_def client_reads_def client_cache_eq readCache_def restoreCache_def
      hook_defs cache_0)

lemma nullish_cases: "nullish v = (v = JUndefined \<or> v = JNull)"
  by (cases v) simp_all

lemma readProp_not_nullish: "\<not> nullish (readProp v k) \<Longrightarrow> \<not> nullish v"
  by (cases v) simp_all

lemma ToString_error: "ToString v = Inl e \<Longrightarrow> e = TypeError"
  by (cases e) simp

section \<open>The readiness gate\<close>

text \<open>
  Claim C1, as stated: when the rehydration promise rejects, the gate opens as it does
  when the promise fulfils. It fails: after the mount, a rejection leaves CacheReadiness
  Pending, while a fulfilment makes it Ready.
\<close>

theorem rejection_keeps_gate_closed_counterexample:
  "CacheReadiness (run [Render, Settle Reject] module_load) = Pending \<and>
   CacheReadiness (run [Render, Settle (Fulfil [])] module_load) = Ready"
  by (simp add: CacheReadiness_hook hook_defs run_defs)

text \<open>
  Claim C1, amended: when the rehydration promise rejects, the callback passed to
  \<open>then\<close> is not run and CacheReadiness keeps the value it had, so a Pending gate stays
  Pending; when an unsettled promise fulfils, CacheReadiness becomes Ready.
\<close>

theorem gate_opens_on_fulfilment_only:
  "CacheReadiness (settle Reject p) = CacheReadiness p \<and>
   (promise p = Some (options, Unsettled) \<longrightarrow> CacheReadiness (settle (Fulfil d) p) = Ready)"
  by (simp add: CacheReadiness_hook hook_Reject hook_Fulfil del: settle.simps)

theorem gate_opens_on_fulfilment_only_witness:
  "promise (step Render module_load) =
     Some (\<lparr>persist_cache = cache, persist_storage = AsyncStorage\<rparr>, Unsettled) \<and>
   CacheReadiness (step Render module_load) = Pending \<and>
   CacheReadiness (settle Reject (step Render module_load)) = Pending \<and>
   CacheReadiness (settle (Fulfil [(''ROOT_QUERY'', ''{}'')]) (step Render module_load)) = Ready"
proof -
  have h: "promise (step Render module_load) =
     Some (\<lparr>persist_cache = cache, persist_storage = AsyncStorage\<rparr>, Unsettled)"
    by (simp add: hook_defs module_load_def)
  have r: "CacheReadiness (step Render module_load) = Pending"
    by (simp add: CacheReadiness_hook hook_defs module_load_def)
  show ?thesis
    using h r gate_opens_on_fulfilment_only
      [of "step Render module_load" "\<lparr>persist_cache = cache, persist_storage = AsyncStorage\<rparr>"
        "[(''ROOT_QUERY'', ''{}'')]"]
    by (simp del: settle.simps step.simps)
qed

text \<open>
  Claim C2, as stated: in every sequence of events of one process lifetime,
  CacheReadiness goes from Pending to Ready at most once and never back. It fails: the
  flag is the state of a mounted instance, so when the component is unmounted and
  mounted again in the same process, CacheReadiness is Pending after it was Ready, and a
  later fulfilment changes it a third time.
\<close>

theorem remount_returns_to_Pending_counterexample:
  "CacheReadiness (run [Render, Settle (Fulfil [])] module_load) = Ready \<and>
   CacheReadiness (run [Render, Settle (Fulfil []), Unmount, Render] module_load) = Pending \<and>
   transitions module_load [Render, Settle (Fulfil []), Unmount, Render, Settle (Fulfil [])] = 3"
  by (simp add: CacheReadiness_hook hook_defs run_defs)

text \<open>
  Claim C2, amended: while one instance of the component is mounted (in every sequence
  of events with no unmount), CacheReadiness changes only from Pending to Ready, at most
  once, and never from Ready back to Pending; the completion callback leaves a process
  that is already Ready as it is, and settling a promise that is already settled changes
  nothing. Unmounting discards the flag: CacheReadiness is Pending again.
\<close>

theorem CacheReadiness_monotone_while_mounted:
  "(e \<noteq> Unmount \<and> CacheReadiness p = Ready \<longrightarrow> CacheReadiness (step e p) = Ready) \<and>
   (Unmount \<notin> set es \<longrightarrow> transitions p es \<le> 1) \<and>
   (CacheReadiness p = Ready \<longrightarrow> onFulfilled p = p) \<and>
   (promise p = Some (options, st) \<and> st \<noteq> Unsettled \<longrightarrow> settle s p = p) \<and>
   CacheReadiness (step Unmount p) = Pending"
proof -
  have "CacheReadiness (step Unmount p) = Pending"
    by (simp add: CacheReadiness_hook hook_unmount)
  then show ?thesis
    using step_Ready [of e p] transitions_le [of es p] onFulfilled_Ready [of p]
      settle_settled [of p options st s]
    by blast
qed

theorem CacheReadiness_monotone_while_mounted_witness:
  "CacheReadiness (run [Render, Settle (Fulfil [])] module_load) = Ready \<and>
   promise (run [Render, Settle (Fulfil [])] module_load) =
     Some (\<lparr>persist_cache = cache, persist_storage = AsyncStorage\<rparr>, Fulfilled) \<and>
   CacheReadiness (step (Settle (Fulfil [])) (run [Render, Settle (Fulfil [])] module_load)) = Ready \<and>
   transitions (run [Render, Settle (Fulfil [])] module_load) [Render, Settle Reject] \<le> 1 \<and>
   onFulfilled (run [Render, Settle (Fulfil [])] module_load) =
     run [Render, Settle (Fulfil [])] module_load \<and>
   settle (Fulfil []) (run [Render, Settle (Fulfil [])] module_load) =
     run [Render, Settle (Fulfil [])] module_load"
proof -
  let ?p = "run [Render, Settle (Fulfil [])] module_load"
  have r: "CacheReadiness ?p = Ready"
    by (simp add: CacheReadiness_hook hook_defs run_defs)
  have q: "promise ?p = Some (\<lparr>persist_cache = cache, persist_storage = AsyncStorage\<rparr>, Fulfilled)"
    by (simp add: hook_defs run_defs)
  have n: "Fulfilled \<noteq> Unsettled" "Settle (Fulfil []) \<noteq> Unmount"
    "Unmount \<notin> set [Render, Settle Reject]" by simp_all
  show ?thesis
    using r q n CacheReadiness_monotone_while_mounted
      [of "Settle (Fulfil [])" ?p "[Render, Settle Reject]"
        "\<lparr>persist_cache = cache, persist_storage = AsyncStorage\<rparr>" Fulfilled "Fulfil []"]
    by (simp del: settle.simps step.simps run.simps transitions.simps)
qed

text \<open>
  Claim C4: CacheReadiness is Pending at process start, and whenever it is Pending the
  render function returns the loading placeholder and nothing of the navigation tree.
\<close>

theorem Pending_renders_placeholder:
  "CacheReadiness module_load = Pending \<and>
   (CacheReadiness p = Pending \<longrightarrow>
      fst (App screenOptions p) = AppLoading \<and> \<not> renders_navigation (fst (App screenOptions p)))"
  using module_load_Pending App_Pending [of p screenOptions] by simp

theorem Pending_renders_placeholder_witness:
  "CacheReadiness (step Render module_load) = Pending \<and>
   fst (App () (step Render module_load)) = AppLoading \<and>
   \<not> renders_navigation (fst (App () (step Render module_load)))"
proof -
  have r: "CacheReadiness (step Render module_load) = Pending"
    by (simp add: CacheReadiness_hook hook_defs module_load_def)
  show ?thesis
    using r Pending_renders_placeholder [of "step Render module_load" "()"]
    by (simp del: step.simps)
qed

text \<open>
  Claim C5: in a run in which the rehydration never resolves (no event fulfils the
  promise; the source has no timeout and no cancellation), CacheReadiness is Pending
  after every number of steps and the render function returns the loading placeholder.
\<close>

theorem stalled_rehydration_stays_Pending:
  "never_fulfilled es \<Longrightarrow>
   CacheReadiness (run es module_load) = Pending \<and>
   fst (App screenOptions (run es module_load)) = AppLoading"
proof -
  assume "never_fulfilled es"
  then have "CacheReadiness (run es module_load) = Pending"
    by (rule run_never_fulfilled [OF _ module_load_Pending])
  then show ?thesis by (simp add: App_Pending)
qed

theorem stalled_rehydration_stays_Pending_witness:
  "never_fulfilled [Render, Render, Settle Reject, Render] \<and>
   CacheReadiness (run [Render, Render, Settle Reject, Render] module_load) = Pending \<and>
   fst (App () (run [Render, Render, Settle Reject, Render] module_load)) = AppLoading"
proof -
  have h: "never_fulfilled [Render, Render, Settle Reject, Render]" by simp
  show ?thesis
    using h stalled_rehydration_stays_Pending [OF h, of "()"] by simp
qed




text \<open>
  Claim C7: once CacheReadiness is Ready, the render function returns the navigation
  tree, whose stack navigator has Home as its initial route, and not the placeholder.
\<close>

theorem Ready_renders_navigation:
  "CacheReadiness p = Ready \<Longrightarrow>
   fst (App screenOptions p) =
     ApolloProvider client
       (NavigationContainer
          [Stack_Navigator ''Home'' screenOptions
             [Screen ''Home'' HomeScreen
                (Static \<lparr> title = JStr Home_title, gestureResponseDistance = None \<rparr>),
              Screen ''Chapter'' ChapterScreen (Dynamic Chapter_options)],
           StatusBar ''light'']) \<and>
   initialRouteName (fst (App screenOptions p)) = Some ''Home'' \<and>
   renders_navigation (fst (App screenOptions p)) \<and>
   fst (App screenOptions p) \<noteq> AppLoading"
  by (auto simp: App_def App_hooks_def App_return_def CacheReadiness_def
      split: prod.splits if_splits)

theorem Ready_renders_navigation_witness:
  "CacheReadiness (run [Render, Settle (Fulfil [])] module_load) = Ready \<and>
   initialRouteName (fst (App () (run [Render, Settle (Fulfil [])] module_load))) = Some ''Home''"
proof -
  have r: "CacheReadiness (run [Render, Settle (Fulfil [])] module_load) = Ready"
    by (simp add: CacheReadiness_hook hook_defs run_defs)
  show ?thesis
    using r Ready_renders_navigation [OF r, of "()"] by (simp del: run.simps)
qed

text \<open>
  Claim C10: the cache handed to the rehydration is the cache of the client, one object
  created at module load. Hence the content a fulfilled rehydration restores is what the
  client reads.
\<close>

theorem rehydrated_cache_is_client_cache:
  "(promise (run es module_load) = Some (options, st) \<longrightarrow>
      persist_cache options = client_cache client) \<and>
   (promise (run es module_load) = Some (options, Unsettled) \<longrightarrow>
      client_reads client (settle (Fulfil d) (run es module_load)) = Some d)"
proof -
  have i: "alias_inv (run es module_load)"
    by (rule alias_inv_run [OF alias_inv_module_load])
  then have "promise (run es module_load) = Some (options, st) \<longrightarrow>
      persist_cache options = client_cache client"
    by (auto simp: alias_inv_def client_cache_eq)
  moreover have "promise (run es module_load) = Some (options, Unsettled) \<longrightarrow>
      client_reads client (settle (Fulfil d) (run es module_load)) = Some d"
    using i reads_after_fulfil [of "run es module_load" options d] by blast
  ultimately show ?thesis by (rule conjI)
qed

theorem rehydrated_cache_is_client_cache_witness:
  "promise (run [Render] module_load) =
     Some (\<lparr>persist_cache = cache, persist_storage = AsyncStorage\<rparr>, Unsettled) \<and>
   persist_cache \<lparr>persist_cache = cache, persist_storage = AsyncStorage\<rparr> = client_cache client \<and>
   client_reads client (settle (Fulfil [(''Chapter:1'', ''{}'')]) (run [Render] module_load))
     = Some [(''Chapter:1'', ''{}'')] \<and>
   client_reads client (run [Render] module_load) = Some []"
proof -
  have h: "promise (run [Render] module_load) =
     Some (\<lparr>persist_cache = cache, persist_storage = AsyncStorage\<rparr>, Unsettled)"
    by (simp add: hook_defs module_load_def)
  have e: "client_reads client (run [Render] module_load) = Some []"
    by (simp add: hook_defs run_defs)
  show ?thesis
    using h e rehydrated_cache_is_client_cache
      [of "[Render]" "\<lparr>persist_cache = cache, persist_storage = AsyncStorage\<rparr>" Unsettled
        "[(''Chapter:1'', ''{}'')]"]
    by (simp del: run.simps settle.simps)
qed

section \<open>The Chapter route\<close>

text \<open>
  Claim C3: for a Chapter activation whose params hold a chapter, with \<open>number\<close> and
  \<open>title\<close> the values of its fields: when \<open>number\<close> is not truthy the screen title is
  \<open>title\<close> itself; when \<open>number\<close> is truthy the screen title is the string
  \<open>"Chapter {number}: {title}"\<close>, made of the strings the two values convert to, and
  when one of them has no string (the conversion throws) the options function throws and
  computes no title. Number 3 with title Queries gives \<open>"Chapter 3: Queries"\<close>, and number
  null with title Introduction gives \<open>"Introduction"\<close>.
\<close>

theorem Chapter_title:
  "(\<forall>params ch num ttl.
      readProp params K_chapter = ch \<and> \<not> nullish ch \<and>
      readProp ch K_number = num \<and> readProp ch K_title = ttl \<longrightarrow>
      (\<not> truthy num \<longrightarrow>
         map_sum id title (Chapter_options (activation params)) = Inr ttl) \<and>
      (truthy num \<longrightarrow>
         (\<forall>n t. ToString num = Inr n \<and> ToString ttl = Inr t \<longrightarrow>
            map_sum id title (Chapter_options (activation params))
              = Inr (JStr (''Chapter '' @ n @ '': '' @ t))) \<and>
         (ToString num = Inl TypeError \<or> ToString ttl = Inl TypeError \<longrightarrow>
            Chapter_options (activation params) = Inl TypeError))) \<and>
   map_sum id title (Chapter_options (activation (JObj [(''chapter'',
       JObj [(''number'', JNum 3), (''title'', JStr ''Queries'')])])))
     = Inr (JStr ''Chapter 3: Queries'') \<and>
   map_sum id title (Chapter_options (activation (JObj [(''chapter'',
       JObj [(''number'', JNull), (''title'', JStr ''Introduction'')])])))
     = Inr (JStr ''Introduction'')"
proof (intro conjI allI impI)
  fix ps ch num ttl
  assume a: "readProp ps K_chapter = ch \<and> \<not> nullish ch \<and>
      readProp ch K_number = num \<and> readProp ch K_title = ttl"
    and f: "\<not> truthy num"
  from a have "\<not> nullish ps" using readProp_not_nullish [of ps K_chapter] by blast
  with a f show "map_sum id title (Chapter_options (activation ps)) = Inr ttl"
    by (simp add: Chapter_options_def activation_def getProp_def)
next
  fix ps ch num ttl n t
  assume a: "readProp ps K_chapter = ch \<and> \<not> nullish ch \<and>
      readProp ch K_number = num \<and> readProp ch K_title = ttl"
    and f: "truthy num" "ToString num = Inr n \<and> ToString ttl = Inr t"
  from a have "\<not> nullish ps" using readProp_not_nullish [of ps K_chapter] by blast
  with a f show "map_sum id title (Chapter_options (activation ps))
      = Inr (JStr (''Chapter '' @ n @ '': '' @ t))"
    by (simp add: Chapter_options_def activation_def getProp_def)
next
  fix ps ch num ttl
  assume a: "readProp ps K_chapter = ch \<and> \<not> nullish ch \<and>
      readProp ch K_number = num \<and> readProp ch K_title = ttl"
    and f: "truthy num" "ToString num = Inl TypeError \<or> ToString ttl = Inl TypeError"
  from a have "\<not> nullish ps" using readProp_not_nullish [of ps K_chapter] by blast
  with a f show "Chapter_options (activation ps) = Inl TypeError"
    by (auto simp: Chapter_options_def activation_def getProp_def split: sum.splits
        dest: ToString_error)
next
  show "map_sum id title (Chapter_options (activation (JObj [(''chapter'',
       JObj [(''number'', JNum 3), (''title'', JStr ''Queries'')])])))
     = Inr (JStr ''Chapter 3: Queries'')"
    by (simp add: Chapter_options_def activation_def getProp_def show_simps)
next
  show "map_sum id title (Chapter_options (activation (JObj [(''chapter'',
       JObj [(''number'', JNull), (''title'', JStr ''Introduction'')])])))
     = Inr (JStr ''Introduction'')"
    by (simp add: Chapter_options_def activation_def getProp_def)
qed

theorem Chapter_title_witness:
  "map_sum id title (Chapter_options (activation (JObj [(''chapter'',
       JObj [(''number'', JNum 12), (''title'', JStr ''Caching'')])])))
     = Inr (JStr ''Chapter 12: Caching'') \<and>
   map_sum id title (Chapter_options (activation (JObj [(''chapter'',
       JObj [(''number'', JNum 0), (''title'', JStr ''Preface'')])])))
     = Inr (JStr ''Preface'') \<and>
   Chapter_options (activation (JObj [(''chapter'',
       JObj [(''number'', JObj [(''toString'', JNum 1)]), (''title'', JStr ''T'')])]))
     = Inl TypeError"
proof -
  let ?c1 = "JObj [(''number'', JNum 12), (''title'', JStr ''Caching'')]"
  let ?c2 = "JObj [(''number'', JNum 0), (''title'', JStr ''Preface'')]"
  let ?c3 = "JObj [(''number'', JObj [(''toString'', JNum 1)]), (''title'', JStr ''T'')]"
  have g: "\<forall>params ch num ttl.
      readProp params K_chapter = ch \<and> \<not> nullish ch \<and>
      readProp ch K_number = num \<and> readProp ch K_title = ttl \<longrightarrow>
      (\<not> truthy num \<longrightarrow>
         map_sum id title (Chapter_options (activation params)) = Inr ttl) \<and>
      (truthy num \<longrightarrow>
         (\<forall>n t. ToString num = Inr n \<and> ToString ttl = Inr t \<longrightarrow>
            map_sum id title (Chapter_options (activation params))
              = Inr (JStr (''Chapter '' @ n @ '': '' @ t))) \<and>
         (ToString num = Inl TypeError \<or> ToString ttl = Inl TypeError \<longrightarrow>
            Chapter_options (activation params) = Inl TypeError))"
    using Chapter_title by (rule conjunct1)
  have h1: "readProp (JObj [(''chapter'', ?c1)]) K_chapter = ?c1 \<and> \<not> nullish ?c1 \<and>
      readProp ?c1 K_number = JNum 12 \<and> readProp ?c1 K_title = JStr ''Caching''"
    by simp
  have t1: "truthy (JNum 12)"
    "ToString (JNum 12) = Inr ''12'' \<and> ToString (JStr ''Caching'') = Inr ''Caching''"
    by (simp_all add: show_simps)
  have h2: "readProp (JObj [(''chapter'', ?c2)]) K_chapter = ?c2 \<and> \<not> nullish ?c2 \<and>
      readProp ?c2 K_number = JNum 0 \<and> readProp ?c2 K_title = JStr ''Preface''"
    by simp
  have t2: "\<not> truthy (JNum 0)" by simp
  have h3: "readProp (JObj [(''chapter'', ?c3)]) K_chapter = ?c3 \<and> \<not> nullish ?c3 \<and>
      readProp ?c3 K_number = JObj [(''toString'', JNum 1)] \<and> readProp ?c3 K_title = JStr ''T''"
    by simp
  have t3: "truthy (JObj [(''toString'', JNum 1)])"
    "ToString (JObj [(''toString'', JNum 1)]) = Inl TypeError" by simp_all
  have r1: "map_sum id title (Chapter_options (activation (JObj [(''chapter'', ?c1)])))
      = Inr (JStr (''Chapter '' @ ''12'' @ '': '' @ ''Caching''))"
    using g h1 t1 by blast
  have r2: "map_sum id title (Chapter_options (activation (JObj [(''chapter'', ?c2)])))
      = Inr (JStr ''Preface'')"
    using g h2 t2 by blast
  have r3: "Chapter_options (activation (JObj [(''chapter'', ?c3)])) = Inl TypeError"
    using g h3 t3 by blast
  from r1 r2 r3 show ?thesis by simp
qed

text \<open>
  Claim C8: whenever the Chapter options are computed, they carry a gesture response
  distance whose horizontal component is 500; and they are computed, with that distance,
  for every activation whose chapter can be destructured and whose title can be computed
  (\<open>number\<close> is not truthy, or \<open>number\<close> and \<open>title\<close> convert to strings).
\<close>

theorem Chapter_gesture_distance:
  "(Chapter_options props = Inr opts \<longrightarrow>
      gestureResponseDistance opts = Some \<lparr> horizontal = 500 \<rparr>) \<and>
   (\<not> nullish (readProp params K_chapter) \<and>
    (truthy (readProp (readProp params K_chapter) K_number) \<longrightarrow>
       ToString (readProp (readProp params K_chapter) K_number) \<noteq> Inl TypeError \<and>
       ToString (readProp (readProp params K_chapter) K_title) \<noteq> Inl TypeError) \<longrightarrow>
      map_sum id gestureResponseDistance (Chapter_options (activation params))
        = Inr (Some \<lparr> horizontal = 500 \<rparr>))"
proof (intro conjI impI)
  assume "Chapter_options props = Inr opts"
  then show "gestureResponseDistance opts = Some \<lparr> horizontal = 500 \<rparr>"
    by (auto simp: Chapter_options_def split: sum.splits if_splits)
next
  assume a: "\<not> nullish (readProp params K_chapter) \<and>
    (truthy (readProp (readProp params K_chapter) K_number) \<longrightarrow>
       ToString (readProp (readProp params K_chapter) K_number) \<noteq> Inl TypeError \<and>
       ToString (readProp (readProp params K_chapter) K_title) \<noteq> Inl TypeError)"
  then have "\<not> nullish params" using readProp_not_nullish [of params K_chapter] by blast
  with a show "map_sum id gestureResponseDistance (Chapter_options (activation params))
        = Inr (Some \<lparr> horizontal = 500 \<rparr>)"
    by (auto simp: Chapter_options_def activation_def getProp_def split: sum.splits
        dest: ToString_error)
qed

theorem Chapter_gesture_distance_witness:
  "Chapter_options (activation (JObj [(''chapter'', JObj [(''number'', JNum 3), (''title'', JStr ''Queries'')])]))
     = Inr \<lparr> title = JStr ''Chapter 3: Queries'', gestureResponseDistance = Some \<lparr> horizontal = 500 \<rparr> \<rparr> \<and>
   gestureResponseDistance \<lparr> title = JStr ''Chapter 3: Queries'',
       gestureResponseDistance = Some \<lparr> horizontal = 500 \<rparr> \<rparr> = Some \<lparr> horizontal = 500 \<rparr> \<and>
   map_sum id gestureResponseDistance (Chapter_options (activation (JObj [(''chapter'', JStr ''x'')])))
        = Inr (Some \<lparr> horizontal = 500 \<rparr>)"
proof -
  let ?props = "activation (JObj [(''chapter'', JObj [(''number'', JNum 3), (''title'', JStr ''Queries'')])])"
  let ?opts = "\<lparr> title = JStr ''Chapter 3: Queries'', gestureResponseDistance = Some \<lparr> horizontal = 500 \<rparr> \<rparr>"
  have h: "Chapter_options ?props = Inr ?opts"
    by (simp add: Chapter_options_def activation_def getProp_def show_simps)
  have n: "\<not> nullish (readProp (JObj [(''chapter'', JStr ''x'')]) K_chapter)"
    "\<not> truthy (readProp (readProp (JObj [(''chapter'', JStr ''x'')]) K_chapter) K_number)"
    by simp_all
  show ?thesis
    using h n Chapter_gesture_distance [of ?props ?opts "JObj [(''chapter'', JStr ''x'')]"]
    by blast
qed

text \<open>
  Claim C9, as stated: the computation succeeds whenever \<open>params.chapter\<close> is present.
  It fails twice: a chapter property that is present with the value \<open>null\<close> cannot be
  destructured; and a chapter that is destructured, with a truthy \<open>number\<close> that has no
  string (an object whose own \<open>toString\<close> is not callable), makes the template literal
  throw.
\<close>

theorem Chapter_options_present_chapter_counterexample:
  "map_of [(''chapter'', JNull)] ''chapter'' = Some JNull \<and>
   Chapter_options (JObj [(''route'', JObj [(''params'', JObj [(''chapter'', JNull)])])])
     = Inl TypeError \<and>
   Chapter_options (JObj [(''route'', JObj [(''params'', JObj [(''chapter'',
       JObj [(''number'', JObj [(''toString'', JNum 1)]), (''title'', JStr ''T'')])])])])
     = Inl TypeError"
  by (simp add: Chapter_options_def getProp_def)

text \<open>
  Claim C9, amended: the options computation destructures \<open>route.params.chapter\<close>
  unconditionally. It fails with a TypeError whenever \<open>params\<close> or \<open>params.chapter\<close> is
  undefined (absent) or null. When both are neither undefined nor null the destructuring
  succeeds, and the computation succeeds exactly when \<open>number\<close> is not truthy or both
  \<open>number\<close> and \<open>title\<close> convert to strings.
\<close>

theorem Chapter_options_partial:
  "(nullish (readProp route K_params) \<or>
    nullish (readProp (readProp route K_params) K_chapter) \<longrightarrow>
      Chapter_options (JObj ((''route'', route) # rest)) = Inl TypeError) \<and>
   (\<not> nullish (readProp route K_params) \<and>
    \<not> nullish (readProp (readProp route K_params) K_chapter) \<longrightarrow>
      ((\<exists>opts. Chapter_options (JObj ((''route'', route) # rest)) = Inr opts) \<longleftrightarrow>
       (truthy (readProp (readProp (readProp route K_params) K_chapter) K_number) \<longrightarrow>
          ToString (readProp (readProp (readProp route K_params) K_chapter) K_number)
            \<noteq> Inl TypeError \<and>
          ToString (readProp (readProp (readProp route K_params) K_chapter) K_title)
            \<noteq> Inl TypeError)))"
proof (intro conjI impI)
  assume a: "nullish (readProp route K_params) \<or>
    nullish (readProp (readProp route K_params) K_chapter)"
  show "Chapter_options (JObj ((''route'', route) # rest)) = Inl TypeError"
  proof (cases "nullish route")
    case True
    then show ?thesis by (simp add: Chapter_options_def getProp_def)
  next
    case False
    with a show ?thesis by (auto simp: Chapter_options_def getProp_def)
  qed
next
  assume a: "\<not> nullish (readProp route K_params) \<and>
    \<not> nullish (readProp (readProp route K_params) K_chapter)"
  then have "\<not> nullish route" using readProp_not_nullish [of route K_params] by blast
  with a show "(\<exists>opts. Chapter_options (JObj ((''route'', route) # rest)) = Inr opts) \<longleftrightarrow>
       (truthy (readProp (readProp (readProp route K_params) K_chapter) K_number) \<longrightarrow>
          ToString (readProp (readProp (readProp route K_params) K_chapter) K_number)
            \<noteq> Inl TypeError \<and>
          ToString (readProp (readProp (readProp route K_params) K_chapter) K_title)
            \<noteq> Inl TypeError)"
    by (auto simp: Chapter_options_def getProp_def split: sum.splits dest: ToString_error)
qed

theorem Chapter_options_partial_witness:
  "Chapter_options (JObj [(''route'', JObj [(''name'', JStr ''Chapter'')])]) = Inl TypeError \<and>
   Chapter_options (JObj [(''route'', JObj [(''params'', JObj [])])]) = Inl TypeError \<and>
   (\<exists>opts. Chapter_options (JObj [(''route'', JObj [(''params'',
       JObj [(''chapter'', JObj [(''title'', JStr ''Preface'')])])])]) = Inr opts) \<and>
   (\<exists>opts. Chapter_options (JObj [(''route'', JObj [(''params'',
       JObj [(''chapter'', JObj [(''number'', JNum 7), (''title'', JArr [JStr ''a'', JNull])])])])])
       = Inr opts) \<and>
   \<not> (\<exists>opts. Chapter_options (JObj [(''route'', JObj [(''params'',
       JObj [(''chapter'', JObj [(''number'', JNum 7), (''title'', JSymbol ''s'')])])])])
       = Inr opts)"
  using Chapter_options_partial [of "JObj [(''name'', JStr ''Chapter'')]" "[]"]
    Chapter_options_partial [of "JObj [(''params'', JObj [])]" "[]"]
    Chapter_options_partial [of "JObj [(''params'',
       JObj [(''chapter'', JObj [(''title'', JStr ''Preface'')])])]" "[]"]
    Chapter_options_partial [of "JObj [(''params'',
       JObj [(''chapter'', JObj [(''number'', JNum 7), (''title'', JArr [JStr ''a'', JNull])])])]" "[]"]
    Chapter_options_partial [of "JObj [(''params'',
       JObj [(''chapter'', JObj [(''number'', JNum 7), (''title'', JSymbol ''s'')])])]" "[]"]
  by simp

end
